theory Spec2Isabelle
  imports Main
begin

section \<open>Python values used by the nameserver\<close>

text \<open>
  The exceptions that the modelled code of \<open>concoord/nameserver.py\<close> can raise. A function
  that can raise returns \<open>error + 'a\<close>, with \<open>Inl\<close> for the exception. \<open>DNSException\<close>
  stands for any exception that the DNS library raises when it reads a response from a text
  or encodes a response for the wire.
\<close>

datatype error =
  IndexError | KeyError | ValueError | UnboundLocalError
  | EmptyLabel | LabelTooLong | NameTooLong | DNSException

text \<open>Python list indexing \<open>xs[i]\<close>: a negative index counts from the end.\<close>

definition py_index :: "'a list \<Rightarrow> int \<Rightarrow> error + 'a" where
  "py_index xs i =
     (if 0 \<le> i \<and> i < int (length xs) then Inr (xs ! nat i)
      else if i < 0 \<and> - int (length xs) \<le> i then Inr (xs ! nat (int (length xs) + i))
      else Inl IndexError)"

text \<open>\<open>str(n)\<close> and \<open>"%d" % n\<close> for a Python integer: decimal digits, with a leading minus sign.\<close>

definition DIGITS :: string where
  "DIGITS = ''0123456789''"

definition digit_char :: "nat \<Rightarrow> char" where
  "digit_char d = DIGITS ! (d mod 10)"

function str_nat :: "nat \<Rightarrow> string" where
  "str_nat n = (if n < 10 then [digit_char n] else str_nat (n div 10) @ [digit_char (n mod 10)])"
  by pat_completeness auto
termination
  by (relation "measure (\<lambda>n. n)") auto

declare str_nat.simps [simp del]

definition str_int :: "int \<Rightarrow> string" where
  "str_int i = (if i < 0 then CHR ''-'' # str_nat (nat (- i)) else str_nat (nat i))"

text \<open>\<open>s.split(sep)\<close> for a one-character separator: the empty string gives one empty segment.\<close>

fun str_split :: "char \<Rightarrow> string \<Rightarrow> string list" where
  "str_split sep [] = [[]]"
| "str_split sep (c # cs) =
     (if c = sep then [] # str_split sep cs
      else (case str_split sep cs of [] \<Rightarrow> [[c]] | seg # segs \<Rightarrow> (c # seg) # segs))"

text \<open>\<open>s.find(c)\<close>: the index of the first occurrence, or \<open>-1\<close>.\<close>

fun find_from :: "int \<Rightarrow> char \<Rightarrow> string \<Rightarrow> int" where
  "find_from i c [] = - 1"
| "find_from i c (x # xs) = (if x = c then i else find_from (i + 1) c xs)"

definition str_find :: "string \<Rightarrow> char \<Rightarrow> int" where
  "str_find s c = find_from 0 c s"

text \<open>\<open>p in s\<close> on strings: \<open>p\<close> occurs as a contiguous substring of \<open>s\<close>.\<close>

fun starts_with :: "string \<Rightarrow> string \<Rightarrow> bool" where
  "starts_with s [] = True"
| "starts_with [] (p # ps) = False"
| "starts_with (c # cs) (p # ps) = (c = p \<and> starts_with cs ps)"

fun contains :: "string \<Rightarrow> string \<Rightarrow> bool" where
  "contains [] p = (p = [])"
| "contains (c # cs) p = (starts_with (c # cs) p \<or> contains cs p)"

text \<open>\<open>s.zfill(w)\<close>: zeros are inserted on the left, after a leading sign.\<close>

definition zfill :: "nat \<Rightarrow> string \<Rightarrow> string" where
  "zfill w s =
     (case s of
        [] \<Rightarrow> replicate w CHR ''0''
      | c # cs \<Rightarrow>
          if c = CHR ''+'' \<or> c = CHR ''-''
          then c # replicate (w - length s) CHR ''0'' @ cs
          else replicate (w - length s) CHR ''0'' @ s)"

section \<open>Module constants\<close>

definition RRTYPE :: "string list" where
  "RRTYPE = ['''', ''A'', ''NS'', ''MD'', ''MF'', ''CNAME'', ''SOA'', ''MB'', ''MG'', ''MR'', ''NULL'',
             ''WKS'', ''PTR'', ''HINFO'', ''MINFO'', ''MX'', ''TXT'', ''RP'', ''AFSDB'',
             ''X25'', ''ISDN'', ''RT'', ''NSAP'', ''NSAP_PTR'', ''SIG'', ''KEY'', ''PX'',
             ''GPOS'', ''AAAA'', ''LOC'', ''NXT'', '''', '''', ''SRV'']"

definition RRCLASS :: "string list" where
  "RRCLASS = ['''', ''IN'', ''CS'', ''CH'', ''HS'']"

definition OPCODES :: "string list" where
  "OPCODES = [''QUERY'', ''IQUERY'', ''STATUS'']"

definition RCODES :: "string list" where
  "RCODES = [''NOERROR'', ''FORMERR'', ''SERVFAIL'', ''NXDOMAIN'', ''NOTIMP'', ''REFUSED'']"

definition SRVNAME :: string where
  "SRVNAME = ''_concoord._tcp.''"

abbreviation NL :: string where
  "NL \<equiv> [CHR 0x0A]"

section \<open>The response builder\<close>

text \<open>
  \<open>Nameserver.create_response\<close>. The id is an integer, opcode and rcode index the tables
  \<open>OPCODES\<close> and \<open>RCODES\<close>; flags, question and the three section bodies are strings.
\<close>

definition create_response ::
  "int \<Rightarrow> int \<Rightarrow> int \<Rightarrow> string \<Rightarrow> string \<Rightarrow> string \<Rightarrow> string \<Rightarrow> string \<Rightarrow> error + string" where
  "create_response ident opcode rcode flags question answer authority additional =
     (let answerstr = (if answer \<noteq> [] then '';ANSWER'' @ NL @ answer @ NL else []);
          authoritystr = (if authority \<noteq> [] then '';AUTHORITY'' @ NL @ authority @ NL else []);
          additionalstr = (if additional \<noteq> [] then '';ADDITIONAL'' @ NL @ additional @ NL else [])
      in case py_index OPCODES opcode of
           Inl e \<Rightarrow> Inl e
         | Inr opname \<Rightarrow>
             (case py_index RCODES rcode of
                Inl e \<Rightarrow> Inl e
              | Inr rcname \<Rightarrow>
                  Inr (''id '' @ str_int ident @ NL @ ''opcode '' @ opname @ NL @
                       ''rcode '' @ rcname @ NL @ ''flags '' @ flags @ NL @
                       '';QUESTION'' @ NL @ question @ NL @
                       answerstr @ authoritystr @ additionalstr)))"

section \<open>The data model\<close>

text \<open>
  A replica of the view: \<open>peer.addr\<close>, \<open>peer.port\<close> and \<open>peer.type\<close> (an integer tag of
  \<open>concoord.enums\<close>).
\<close>

record replica =
  addr :: string
  port :: int
  rtype :: nat

text \<open>
  A DNS name (\<open>dns.name.Name\<close>) is its sequence of labels, the last one empty for an
  absolute name. The library compares two names label by label without regard to the case of
  the ASCII letters. A question carries its name and its record type (\<open>question.rdtype\<close>, an
  unsigned 16-bit number on the wire).
\<close>

type_synonym name = "string list"

definition lower_char :: "char \<Rightarrow> char" where
  "lower_char c =
     (case map_of (zip ''ABCDEFGHIJKLMNOPQRSTUVWXYZ'' ''abcdefghijklmnopqrstuvwxyz'') c of
        None \<Rightarrow> c
      | Some l \<Rightarrow> l)"

definition name_eq :: "name \<Rightarrow> name \<Rightarrow> bool" where
  "name_eq a b = (map (map lower_char) a = map (map lower_char) b)"

record question =
  qname :: name
  rdtype :: nat

definition rdatatype_A :: nat where "rdatatype_A = 1"
definition rdatatype_NS :: nat where "rdatatype_NS = 2"
definition rdatatype_SOA :: nat where "rdatatype_SOA = 6"
definition rdatatype_TXT :: nat where "rdatatype_TXT = 16"
definition rdatatype_AAAA :: nat where "rdatatype_AAAA = 28"
definition rdatatype_SRV :: nat where "rdatatype_SRV = 33"

text \<open>
  A decoded query is its id and its questions. A response is either the one that
  \<open>dns.message.make_response\<close> derives from the query, or the one that \<open>dns.message.from_text\<close>
  reads from a text; it is identified by what it was built from, and its id is the id of the
  query.
\<close>

record query =
  qid :: int
  questions :: "question list"

datatype response = make_response query | from_text string

text \<open>
  What the module takes from outside \<open>nameserver.py\<close>: the table \<open>node_names\<close> and the tag
  \<open>NODE_NAMESERVER\<close> of \<open>concoord.enums\<close>, and from the DNS library the renderings
  \<open>str(name)\<close> and \<open>question.to_text()\<close>, whether \<open>dns.message.from_text\<close> reads a text
  without raising, and whether \<open>response.to_wire()\<close> encodes a response without raising.
  They are parameters of the model.
\<close>

record env =
  node_names :: "nat \<rightharpoonup> string"
  NODE_NAMESERVER :: nat
  name_str :: "name \<Rightarrow> string"
  to_text :: "question \<Rightarrow> string"
  from_text_ok :: "string \<Rightarrow> bool"
  to_wire_ok :: "response \<Rightarrow> bool"

text \<open>
  \<open>self.mydomain\<close> is a \<open>dns.name.Name\<close> when the configured domain has a dot after its first
  character, and the configured string itself otherwise.
\<close>

datatype domain = DnsName name | PlainStr string

record nameserver =
  ipconverter :: string
  mydomain :: domain
  mysrvdomain :: name
  replicas :: "replica list"
  revision :: string

text \<open>
  The constructor \<open>dns.name.Name(labels)\<close> validates the labels: a label of more than 63
  characters, then a name of more than 255 characters counting one more for each label, then
  an empty label anywhere but at the end (the exception that \<open>__init__\<close> catches and raises
  again) are refused.
\<close>

definition dns_Name :: "string list \<Rightarrow> error + name" where
  "dns_Name labels =
     (if list_ex (\<lambda>label. 63 < length label) labels then Inl LabelTooLong
      else if 255 < sum_list (map (\<lambda>label. length label + 1) labels) then Inl NameTooLong
      else if [] \<in> set (butlast labels) then Inl EmptyLabel
      else Inr labels)"

text \<open>
  \<open>Nameserver.__init__\<close>, without the socket: \<open>today\<close> is \<open>strftime("%Y%m%d", gmtime())\<close>
  at the time of the call.
\<close>

definition init :: "string \<Rightarrow> replica list \<Rightarrow> string \<Rightarrow> error + nameserver" where
  "init domain_arg replicas_arg today =
     (case (if str_find domain_arg CHR ''.'' > 0
            then (case dns_Name (str_split CHR ''.'' (domain_arg @ ''.'')) of
                    Inl e \<Rightarrow> Inl e | Inr n \<Rightarrow> Inr (DnsName n))
            else Inr (PlainStr domain_arg)) of
        Inl e \<Rightarrow> Inl e
      | Inr md \<Rightarrow>
          (case dns_Name (str_split CHR ''.'' (SRVNAME @ domain_arg @ ''.'')) of
             Inl e \<Rightarrow> Inl e
           | Inr ms \<Rightarrow>
               Inr \<lparr>ipconverter = ''.ipaddr.'' @ domain_arg @ ''.'',
                    mydomain = md,
                    mysrvdomain = ms,
                    replicas = replicas_arg,
                    revision = today @ zfill 2 (str_int 0)\<rparr>))"

section \<open>The query classifier\<close>

text \<open>
  \<open>question.name == self.mydomain\<close>: a name equals a name with the same labels up to the case
  of the letters, and never equals a plain string.
\<close>

definition name_eq_domain :: "name \<Rightarrow> domain \<Rightarrow> bool" where
  "name_eq_domain n d = (case d of DnsName m \<Rightarrow> name_eq n m | PlainStr s \<Rightarrow> False)"

definition ismydomainname :: "nameserver \<Rightarrow> question \<Rightarrow> bool" where
  "ismydomainname ns q =
     (name_eq_domain (qname q) (mydomain ns) \<or>
      (rdtype q = rdatatype_SRV \<and> name_eq (qname q) (mysrvdomain ns)))"

definition should_answer :: "nameserver \<Rightarrow> question \<Rightarrow> bool" where
  "should_answer ns q =
     ((rdtype q = rdatatype_AAAA \<or>
       rdtype q = rdatatype_A \<or>
       rdtype q = rdatatype_TXT \<or>
       rdtype q = rdatatype_NS \<or>
       rdtype q = rdatatype_SRV \<or>
       rdtype q = rdatatype_SOA) \<and> ismydomainname ns q)"

section \<open>Views of the replica list\<close>

text \<open>
  Modelled from the spec: \<open>get_addresses\<close> of \<open>concoord.utils\<close> is not part of the source at
  hand. The spec has one address per replica of the view, in the order of the view.
\<close>

definition get_addresses :: "replica list \<Rightarrow> string list" where
  "get_addresses view = map addr view"

text \<open>
  Modelled from the spec: \<open>get_addressportpairs\<close> of \<open>concoord.utils\<close> is not part of the
  source at hand. The spec has one (address, port) pair per replica of the view.
\<close>

definition get_addressportpairs :: "replica list \<Rightarrow> (string \<times> int) list" where
  "get_addressportpairs view = map (\<lambda>peer. (addr peer, port peer)) view"

definition aresponse :: "nameserver \<Rightarrow> string list" where
  "aresponse ns = get_addresses (replicas ns)"

definition nsresponse :: "env \<Rightarrow> nameserver \<Rightarrow> string list" where
  "nsresponse E ns = map addr (filter (\<lambda>r. rtype r = NODE_NAMESERVER E) (replicas ns))"

definition srvresponse :: "nameserver \<Rightarrow> (string \<times> int) list" where
  "srvresponse ns =
     map (\<lambda>(address, p). (address @ ipconverter ns, p)) (get_addressportpairs (replicas ns))"

fun txt_loop :: "env \<Rightarrow> replica list \<Rightarrow> string \<Rightarrow> error + string" where
  "txt_loop E [] txtstr = Inr txtstr"
| "txt_loop E (peer # rest) txtstr =
     (case node_names E (rtype peer) of
        None \<Rightarrow> Inl KeyError
      | Some role \<Rightarrow>
          txt_loop E rest
            (txtstr @ role @ '' '' @ addr peer @ '':'' @ str_int (port peer) @ '';''))"

definition txtresponse :: "env \<Rightarrow> nameserver \<Rightarrow> error + string" where
  "txtresponse E ns =
     (case txt_loop E (replicas ns) [] of Inl e \<Rightarrow> Inl e | Inr txtstr \<Rightarrow> Inr (butlast txtstr))"

section \<open>The record formatter\<close>

text \<open>
  \<open>create_answer_section\<close>: \<open>resp\<close> is bound only for the types A, TXT and NS; reading it
  unbound raises, after the two table lookups of the same line. The default \<open>txt=None\<close>
  renders as \<open>None\<close>.
\<close>

definition answer_resp :: "question \<Rightarrow> string \<Rightarrow> string option \<Rightarrow> string option" where
  "answer_resp q address txt =
     (if rdtype q = rdatatype_A then Some address
      else if rdtype q = rdatatype_TXT
      then Some ([CHR 0x22] @ (case txt of None \<Rightarrow> ''None'' | Some t \<Rightarrow> t) @ [CHR 0x22])
      else if rdtype q = rdatatype_NS then Some address
      else None)"

definition create_answer_section ::
  "env \<Rightarrow> question \<Rightarrow> int \<Rightarrow> int \<Rightarrow> string \<Rightarrow> string option \<Rightarrow> error + string" where
  "create_answer_section E q ttl rrclass address txt =
     (case py_index RRCLASS rrclass of
        Inl e \<Rightarrow> Inl e
      | Inr cls \<Rightarrow>
          (case py_index RRTYPE (int (rdtype q)) of
             Inl e \<Rightarrow> Inl e
           | Inr ty \<Rightarrow>
               (case answer_resp q address txt of
                  None \<Rightarrow> Inl UnboundLocalError
                | Some resp \<Rightarrow>
                    Inr (name_str E (qname q) @ '' '' @ str_int ttl @ '' '' @ cls @ '' '' @ ty @
                         '' '' @ resp @ NL))))"

definition create_srv_answer_section ::
  "env \<Rightarrow> question \<Rightarrow> int \<Rightarrow> int \<Rightarrow> int \<Rightarrow> int \<Rightarrow> int \<Rightarrow> string \<Rightarrow> error + string" where
  "create_srv_answer_section E q ttl rrclass priority weight p address =
     (case py_index RRCLASS rrclass of
        Inl e \<Rightarrow> Inl e
      | Inr cls \<Rightarrow>
          (case py_index RRTYPE (int (rdtype q)) of
             Inl e \<Rightarrow> Inl e
           | Inr ty \<Rightarrow>
               Inr (name_str E (qname q) @ '' '' @ str_int ttl @ '' '' @ cls @ '' '' @ ty @
                    '' '' @ str_int priority @ '' '' @ str_int weight @ '' '' @ str_int p @
                    '' '' @ address @ NL)))"

definition domain_str :: "env \<Rightarrow> domain \<Rightarrow> string" where
  "domain_str E d = (case d of DnsName n \<Rightarrow> name_str E n | PlainStr s \<Rightarrow> s)"

definition create_soa_answer_section ::
  "env \<Rightarrow> nameserver \<Rightarrow> question \<Rightarrow> int \<Rightarrow> int \<Rightarrow> error + string" where
  "create_soa_answer_section E ns q ttl rrclass =
     (let refreshrate = 86000; updateretry = 7200; expiry = 360000; minimum = 432000
      in case py_index RRCLASS rrclass of
           Inl e \<Rightarrow> Inl e
         | Inr cls \<Rightarrow>
             (case py_index RRTYPE (int (rdtype q)) of
                Inl e \<Rightarrow> Inl e
              | Inr ty \<Rightarrow>
                  Inr (name_str E (qname q) @ '' '' @ str_int ttl @ '' '' @ cls @ '' '' @ ty @
                       '' '' @ domain_str E (mydomain ns) @
                       '' '' @ ''dns-admin.'' @ domain_str E (mydomain ns) @
                       '' ('' @ revision ns @ '' '' @ str_int refreshrate @ '' '' @
                       str_int updateretry @ '' '' @ str_int expiry @ '' '' @
                       str_int minimum @ '')'')))"

section \<open>The dispatcher\<close>

text \<open>The loops \<open>answerstr += f(x)\<close> over a view, stopping at the first exception.\<close>

fun accumulate :: "('a \<Rightarrow> error + string) \<Rightarrow> 'a list \<Rightarrow> string \<Rightarrow> error + string" where
  "accumulate f [] answerstr = Inr answerstr"
| "accumulate f (x # xs) answerstr =
     (case f x of Inl e \<Rightarrow> Inl e | Inr s \<Rightarrow> accumulate f xs (answerstr @ s))"

text \<open>
  The body of the loop of \<open>handle_query\<close> for a question that should be answered, up to the
  flags and the answer text: the chain of tests on the record type, in the order of the source.
\<close>

definition dispatch :: "env \<Rightarrow> nameserver \<Rightarrow> question \<Rightarrow> error + (string \<times> string)" where
  "dispatch E ns q =
     (if rdtype q = rdatatype_AAAA then Inr (''QR'', [])
      else if rdtype q = rdatatype_A then
        (case accumulate (\<lambda>address. create_answer_section E q 30 1 address None) (aresponse ns) [] of
           Inl e \<Rightarrow> Inl e | Inr answerstr \<Rightarrow> Inr (''QR AA'', answerstr))
      else if rdtype q = rdatatype_TXT then
        (case txtresponse E ns of
           Inl e \<Rightarrow> Inl e
         | Inr txt \<Rightarrow>
             (case create_answer_section E q 30 1 [] (Some txt) of
                Inl e \<Rightarrow> Inl e | Inr answerstr \<Rightarrow> Inr (''QR AA'', answerstr)))
      else if rdtype q = rdatatype_NS then
        (case accumulate (\<lambda>address. create_answer_section E q 30 1 address None) (nsresponse E ns) [] of
           Inl e \<Rightarrow> Inl e | Inr answerstr \<Rightarrow> Inr (''QR AA'', answerstr))
      else if rdtype q = rdatatype_SOA then
        (case create_soa_answer_section E ns q 30 1 of
           Inl e \<Rightarrow> Inl e | Inr answerstr \<Rightarrow> Inr (''QR AA'', answerstr))
      else if rdtype q = rdatatype_SRV then
        (case accumulate (\<lambda>(address, p). create_srv_answer_section E q 30 1 0 100 p address)
                (srvresponse ns) [] of
           Inl e \<Rightarrow> Inl e | Inr answerstr \<Rightarrow> Inr (''QR AA'', answerstr))
      else Inr (''QR AA'', []))"

text \<open>The text handed to \<open>dns.message.from_text\<close> for one question that should be answered.\<close>

definition answer_question :: "env \<Rightarrow> nameserver \<Rightarrow> int \<Rightarrow> question \<Rightarrow> error + string" where
  "answer_question E ns ident q =
     (case dispatch E ns q of
        Inl e \<Rightarrow> Inl e
      | Inr (flagstr, answerstr) \<Rightarrow>
          create_response ident 0 0 flagstr (to_text E q) answerstr [] [])"

text \<open>
  The loop of \<open>handle_query\<close> over the questions, from the response held so far. The result
  is \<open>Inl e\<close> when an exception leaves the loop (from the formatter, or from the library
  reading the text), \<open>Inr None\<close> when the function returns from inside the loop, and
  \<open>Inr (Some r)\<close> when the loop ends with the response \<open>r\<close>.
\<close>

fun handle_questions ::
  "env \<Rightarrow> nameserver \<Rightarrow> int \<Rightarrow> question list \<Rightarrow> response \<Rightarrow> error + response option" where
  "handle_questions E ns ident [] resp = Inr (Some resp)"
| "handle_questions E ns ident (q # qs) resp =
     (if should_answer ns q
      then (case answer_question E ns ident q of
              Inl e \<Rightarrow> Inl e
            | Inr responsestr \<Rightarrow>
                if from_text_ok E responsestr
                then handle_questions E ns ident qs (from_text responsestr)
                else Inl DNSException)
      else Inr None)"

text \<open>
  \<open>handle_query\<close> after decoding. The result is \<open>Inl e\<close> when an exception leaves the
  function, so that nothing is sent, \<open>Inr None\<close> when it returns without sending, and
  \<open>Inr (Some r)\<close> when it encodes the response \<open>r\<close> and sends it.
\<close>

definition handle_query :: "env \<Rightarrow> nameserver \<Rightarrow> query \<Rightarrow> error + response option" where
  "handle_query E ns qry =
     (case handle_questions E ns (qid qry) (questions qry) (make_response qry) of
        Inl e \<Rightarrow> Inl e
      | Inr None \<Rightarrow> Inr None
      | Inr (Some resp) \<Rightarrow> if to_wire_ok E resp then Inr (Some resp) else Inl DNSException)"

section \<open>The zone revision\<close>

text \<open>
  \<open>int(s)\<close> on the two ASCII characters that \<open>update\<close> reads: two decimal digits give their
  value; one digit may instead follow a sign or be padded by white space on either side;
  anything else is a \<open>ValueError\<close>.
\<close>

definition digit_val :: "char \<Rightarrow> nat option" where
  "digit_val c = map_of (zip DIGITS [0, 1, 2, 3, 4, 5, 6, 7, 8, 9]) c"

definition is_space :: "char \<Rightarrow> bool" where
  "is_space c \<longleftrightarrow>
     c \<in> set [CHR 0x09, CHR 0x0A, CHR 0x0B, CHR 0x0C, CHR 0x0D,
              CHR 0x1C, CHR 0x1D, CHR 0x1E, CHR 0x1F, CHR 0x20]"

definition int_of_two :: "char \<Rightarrow> char \<Rightarrow> error + int" where
  "int_of_two a b =
     (case (digit_val a, digit_val b) of
        (Some x, Some y) \<Rightarrow> Inr (int (10 * x + y))
      | (None, Some y) \<Rightarrow>
          if a = CHR ''+'' \<or> is_space a then Inr (int y)
          else if a = CHR ''-'' then Inr (- int y)
          else Inl ValueError
      | (Some x, None) \<Rightarrow> if is_space b then Inr (int x) else Inl ValueError
      | (None, None) \<Rightarrow> Inl ValueError)"

text \<open>
  \<open>Nameserver.update\<close>; \<open>today\<close> is \<open>strftime("%Y%m%d", gmtime())\<close> at the time of the call
  (the two readings of the clock within one call give the same day).
\<close>

definition update :: "string \<Rightarrow> nameserver \<Rightarrow> error + nameserver" where
  "update today ns =
     (if contains (revision ns) today
      then (case py_index (revision ns) (- 2) of
              Inl e \<Rightarrow> Inl e
            | Inr a \<Rightarrow>
                (case py_index (revision ns) (- 1) of
                   Inl e \<Rightarrow> Inl e
                 | Inr b \<Rightarrow>
                     (case int_of_two a b of
                        Inl e \<Rightarrow> Inl e
                      | Inr rno \<Rightarrow>
                          Inr (ns\<lparr>revision := today @ zfill 2 (str_int (rno + 1))\<rparr>))))
      else Inr (ns\<lparr>revision := today @ zfill 2 (str_int 0)\<rparr>))"

text \<open>A run of \<open>update\<close> calls, one per entry of the list of days, stopping at an exception.\<close>

fun updates :: "string list \<Rightarrow> nameserver \<Rightarrow> error + nameserver" where
  "updates [] ns = Inr ns"
| "updates (today # days) ns =
     (case update today ns of Inl e \<Rightarrow> Inl e | Inr ns' \<Rightarrow> updates days ns')"

section \<open>Notions of the specification\<close>

text \<open>
  An answer record as the specification has it: owner name, time to live, class, type and a
  payload. Its line in the textual response is the five fields separated by spaces and ended
  by a newline.
\<close>

record answer_record =
  rr_owner :: string
  rr_ttl :: int
  rr_class :: string
  rr_type :: string
  rr_data :: string

definition rr_line :: "answer_record \<Rightarrow> string" where
  "rr_line r =
     rr_owner r @ '' '' @ str_int (rr_ttl r) @ '' '' @ rr_class r @ '' '' @ rr_type r @
     '' '' @ rr_data r @ NL"

text \<open>The payload of a SERVICE record: priority, weight, port and target.\<close>

definition srv_data :: "int \<Rightarrow> int \<Rightarrow> int \<Rightarrow> string \<Rightarrow> string" where
  "srv_data priority weight p target =
     str_int priority @ '' '' @ str_int weight @ '' '' @ str_int p @ '' '' @ target"

text \<open>The segment of the TEXT payload for one replica: role name, address and port.\<close>

definition txt_segment :: "env \<Rightarrow> replica \<Rightarrow> string" where
  "txt_segment E peer =
     (case node_names E (rtype peer) of None \<Rightarrow> [] | Some role \<Rightarrow> role) @
     '' '' @ addr peer @ '':'' @ str_int (port peer)"

text \<open>A section of the textual response: nothing when the body is empty.\<close>

definition section_text :: "string \<Rightarrow> string \<Rightarrow> string" where
  "section_text header body = (if body = [] then [] else header @ NL @ body @ NL)"

text \<open>The part of the textual response that every response of \<open>handle_query\<close> has.\<close>

definition response_head :: "int \<Rightarrow> string \<Rightarrow> string \<Rightarrow> string" where
  "response_head ident flags question =
     ''id '' @ str_int ident @ NL @ ''opcode QUERY'' @ NL @ ''rcode NOERROR'' @ NL @
     ''flags '' @ flags @ NL @ '';QUESTION'' @ NL @ question @ NL"

text \<open>The table \<open>node_names\<close> has a name for the role of every replica of the view.\<close>

definition roles_named :: "env \<Rightarrow> nameserver \<Rightarrow> bool" where
  "roles_named E ns = list_all (\<lambda>peer. node_names E (rtype peer) \<noteq> None) (replicas ns)"


text \<open>No role name and no address of the view contains the separator of the TEXT payload.\<close>

definition semicolon_free :: "env \<Rightarrow> nameserver \<Rightarrow> bool" where
  "semicolon_free E ns =
     list_all (\<lambda>peer. CHR '';'' \<notin> set (addr peer) \<and>
                 (case node_names E (rtype peer) of
                    None \<Rightarrow> True
                  | Some role \<Rightarrow> CHR '';'' \<notin> set role))
       (replicas ns)"

text \<open>\<open>sep.join(segs)\<close> for a one-character separator.\<close>

fun join_with :: "char \<Rightarrow> string list \<Rightarrow> string" where
  "join_with sep [] = []"
| "join_with sep [s] = s"
| "join_with sep (s # t # rest) = s @ sep # join_with sep (t # rest)"

section \<open>A concrete configuration\<close>

text \<open>
  An environment, a view of two replicas and the nameserver that \<open>init\<close> builds for the
  domain \<open>example.com\<close>, used to run the model on concrete queries. The environment renders
  a name as its labels joined by dots (the root as a dot), a question as name, class and the
  mnemonic of its type in the table \<open>RRTYPE\<close>, and has a library that accepts every text and
  encodes every response.
\<close>

fun dotted :: "name \<Rightarrow> string" where
  "dotted [] = []"
| "dotted [l] = l"
| "dotted (l # ls) = l @ ''.'' @ dotted ls"

definition ex_name_str :: "name \<Rightarrow> string" where
  "ex_name_str n = (if n = [] then ''@'' else if n = [[]] then ''.'' else dotted n)"

definition ex_type_text :: "nat \<Rightarrow> string" where
  "ex_type_text t =
     (case py_index RRTYPE (int t) of
        Inl e \<Rightarrow> ''TYPE'' @ str_nat t
      | Inr mnemonic \<Rightarrow> if mnemonic = [] then ''TYPE'' @ str_nat t else mnemonic)"

definition ex_env :: env where
  "ex_env =
     \<lparr>node_names = [0 \<mapsto> ''CLIENT'', 1 \<mapsto> ''REPLICA'', 2 \<mapsto> ''NAMESERVER''],
      NODE_NAMESERVER = 2,
      name_str = ex_name_str,
      to_text = (\<lambda>q. ex_name_str (qname q) @ '' IN '' @ ex_type_text (rdtype q)),
      from_text_ok = (\<lambda>responsestr. True),
      to_wire_ok = (\<lambda>resp. True)\<rparr>"

definition ex_view :: "replica list" where
  "ex_view =
     [\<lparr>addr = ''10.0.0.1'', port = 14000, rtype = 1\<rparr>,
      \<lparr>addr = ''10.0.0.2'', port = 14001, rtype = 2\<rparr>]"

definition ex_ns :: nameserver where
  "ex_ns =
     \<lparr>ipconverter = ''.ipaddr.example.com.'',
      mydomain = DnsName [''example'', ''com'', []],
      mysrvdomain = [''_concoord'', ''_tcp'', ''example'', ''com'', []],
      replicas = ex_view,
      revision = ''2024060100''\<rparr>"

definition ex_local_ns :: nameserver where
  "ex_local_ns =
     \<lparr>ipconverter = ''.ipaddr.localhost.'',
      mydomain = PlainStr ''localhost'',
      mysrvdomain = [''_concoord'', ''_tcp'', ''localhost'', []],
      replicas = ex_view,
      revision = ''2024060100''\<rparr>"

definition ex_question :: "nat \<Rightarrow> question" where
  "ex_question t = \<lparr>qname = [''example'', ''com'', []], rdtype = t\<rparr>"

definition ex_srv_question :: question where
  "ex_srv_question =
     \<lparr>qname = [''_concoord'', ''_tcp'', ''example'', ''com'', []], rdtype = rdatatype_SRV\<rparr>"

section \<open>Facts about the formatter and the dispatcher\<close>

lemmas rdatatype_defs =
  rdatatype_A_def rdatatype_NS_def rdatatype_SOA_def rdatatype_TXT_def rdatatype_AAAA_def
  rdatatype_SRV_def

lemma rrclass_IN: "py_index RRCLASS 1 = Inr ''IN''"
  by (simp add: py_index_def RRCLASS_def)

lemma rrtype_lookups:
  "py_index RRTYPE 1 = Inr ''A''" "py_index RRTYPE 2 = Inr ''NS''"
  "py_index RRTYPE 6 = Inr ''SOA''" "py_index RRTYPE 16 = Inr ''TXT''"
  "py_index RRTYPE 28 = Inr ''AAAA''" "py_index RRTYPE 33 = Inr ''SRV''"
  by (simp_all add: py_index_def RRTYPE_def)

lemma accumulate_Inr:
  "(\<And>x. x \<in> set xs \<Longrightarrow> f x = Inr (g x)) \<Longrightarrow>
     accumulate f xs answerstr = Inr (answerstr @ concat (map g xs))"
  by (induction xs arbitrary: answerstr) simp_all

lemma create_answer_section_A:
  "rdtype q = rdatatype_A \<Longrightarrow>
     create_answer_section E q 30 1 address txt =
       Inr (rr_line \<lparr>rr_owner = name_str E (qname q), rr_ttl = 30, rr_class = ''IN'',
                     rr_type = ''A'', rr_data = address\<rparr>)"
  by (simp add: create_answer_section_def rrclass_IN rrtype_lookups answer_resp_def rr_line_def
      rdatatype_defs)

lemma create_answer_section_NS:
  "rdtype q = rdatatype_NS \<Longrightarrow>
     create_answer_section E q 30 1 address txt =
       Inr (rr_line \<lparr>rr_owner = name_str E (qname q), rr_ttl = 30, rr_class = ''IN'',
                     rr_type = ''NS'', rr_data = address\<rparr>)"
  by (simp add: create_answer_section_def rrclass_IN rrtype_lookups answer_resp_def rr_line_def
      rdatatype_defs)

lemma create_answer_section_TXT:
  "rdtype q = rdatatype_TXT \<Longrightarrow>
     create_answer_section E q 30 1 address (Some txt) =
       Inr (rr_line \<lparr>rr_owner = name_str E (qname q), rr_ttl = 30, rr_class = ''IN'',
                     rr_type = ''TXT'', rr_data = [CHR 0x22] @ txt @ [CHR 0x22]\<rparr>)"
  by (simp add: create_answer_section_def rrclass_IN rrtype_lookups answer_resp_def rr_line_def
      rdatatype_defs)

lemma create_srv_answer_section_SRV:
  "rdtype q = rdatatype_SRV \<Longrightarrow>
     create_srv_answer_section E q 30 1 priority weight p target =
       Inr (rr_line \<lparr>rr_owner = name_str E (qname q), rr_ttl = 30, rr_class = ''IN'',
                     rr_type = ''SRV'', rr_data = srv_data priority weight p target\<rparr>)"
  by (simp add: create_srv_answer_section_def rrclass_IN rrtype_lookups rr_line_def srv_data_def
      rdatatype_defs)

lemma dispatch_A:
  "rdtype q = rdatatype_A \<Longrightarrow>
     dispatch E ns q =
       Inr (''QR AA'',
            concat (map (\<lambda>address. rr_line \<lparr>rr_owner = name_str E (qname q), rr_ttl = 30,
                           rr_class = ''IN'', rr_type = ''A'', rr_data = address\<rparr>)
                        (aresponse ns)))"
  by (simp add: dispatch_def rdatatype_defs
      accumulate_Inr [where g = "\<lambda>address. rr_line \<lparr>rr_owner = name_str E (qname q),
        rr_ttl = 30, rr_class = ''IN'', rr_type = ''A'', rr_data = address\<rparr>"]
      create_answer_section_A [unfolded rdatatype_A_def])

lemma dispatch_NS:
  "rdtype q = rdatatype_NS \<Longrightarrow>
     dispatch E ns q =
       Inr (''QR AA'',
            concat (map (\<lambda>address. rr_line \<lparr>rr_owner = name_str E (qname q), rr_ttl = 30,
                           rr_class = ''IN'', rr_type = ''NS'', rr_data = address\<rparr>)
                        (nsresponse E ns)))"
  by (simp add: dispatch_def rdatatype_defs
      accumulate_Inr [where g = "\<lambda>address. rr_line \<lparr>rr_owner = name_str E (qname q),
        rr_ttl = 30, rr_class = ''IN'', rr_type = ''NS'', rr_data = address\<rparr>"]
      create_answer_section_NS [unfolded rdatatype_NS_def])

lemma dispatch_SRV:
  "rdtype q = rdatatype_SRV \<Longrightarrow>
     dispatch E ns q =
       Inr (''QR AA'',
            concat (map (\<lambda>(target, p). rr_line \<lparr>rr_owner = name_str E (qname q), rr_ttl = 30,
                           rr_class = ''IN'', rr_type = ''SRV'',
                           rr_data = srv_data 0 100 p target\<rparr>)
                        (srvresponse ns)))"
  by (simp add: dispatch_def rdatatype_defs
      accumulate_Inr [where g = "\<lambda>(target, p). rr_line \<lparr>rr_owner = name_str E (qname q),
        rr_ttl = 30, rr_class = ''IN'', rr_type = ''SRV'', rr_data = srv_data 0 100 p target\<rparr>"]
      create_srv_answer_section_SRV [unfolded rdatatype_SRV_def] split_beta)

lemma dispatch_AAAA: "rdtype q = rdatatype_AAAA \<Longrightarrow> dispatch E ns q = Inr (''QR'', [])"
  by (simp add: dispatch_def)

lemma dispatch_SOA:
  "rdtype q = rdatatype_SOA \<Longrightarrow> \<exists>answerstr. dispatch E ns q = Inr (''QR AA'', answerstr)"
  by (simp add: dispatch_def rdatatype_defs create_soa_answer_section_def rrclass_IN
      rrtype_lookups)

lemma txt_loop_Inr:
  "list_all (\<lambda>peer. node_names E (rtype peer) \<noteq> None) view \<Longrightarrow>
     txt_loop E view txtstr = Inr (txtstr @ concat (map (\<lambda>peer. txt_segment E peer @ '';'') view))"
  by (induction view arbitrary: txtstr) (auto simp: txt_segment_def)

lemma txt_loop_not_unbound: "txt_loop E view txtstr \<noteq> Inl UnboundLocalError"
  by (induction view arbitrary: txtstr) (auto split: option.splits)

lemma txtresponse_Inr:
  "roles_named E ns \<Longrightarrow>
     txtresponse E ns = Inr (butlast (concat (map (\<lambda>peer. txt_segment E peer @ '';'') (replicas ns))))"
  by (simp add: txtresponse_def roles_named_def txt_loop_Inr)

lemma dispatch_TXT:
  "rdtype q = rdatatype_TXT \<Longrightarrow> txtresponse E ns = Inr txt \<Longrightarrow>
     dispatch E ns q =
       Inr (''QR AA'',
            rr_line \<lparr>rr_owner = name_str E (qname q), rr_ttl = 30, rr_class = ''IN'',
                     rr_type = ''TXT'', rr_data = [CHR 0x22] @ txt @ [CHR 0x22]\<rparr>)"
  by (simp add: dispatch_def create_answer_section_TXT) (simp add: rdatatype_defs)

lemma answer_question_text:
  "dispatch E ns q = Inr (flagstr, answerstr) \<Longrightarrow>
     answer_question E ns ident q =
       Inr (response_head ident flagstr (to_text E q) @ section_text '';ANSWER'' answerstr)"
  by (simp add: answer_question_def create_response_def py_index_def OPCODES_def RCODES_def
      response_head_def section_text_def)

lemma should_answer_types:
  "should_answer ns q \<Longrightarrow>
     rdtype q = rdatatype_AAAA \<or> rdtype q = rdatatype_A \<or> rdtype q = rdatatype_TXT \<or>
     rdtype q = rdatatype_NS \<or> rdtype q = rdatatype_SRV \<or> rdtype q = rdatatype_SOA"
  by (simp add: should_answer_def)

lemma dispatch_total:
  assumes "should_answer ns q" and "roles_named E ns"
  shows "\<exists>flagstr answerstr. dispatch E ns q = Inr (flagstr, answerstr) \<and>
           flagstr = (if rdtype q = rdatatype_AAAA then ''QR'' else ''QR AA'')"
proof -
  consider "rdtype q = rdatatype_AAAA" | "rdtype q = rdatatype_A" | "rdtype q = rdatatype_TXT"
    | "rdtype q = rdatatype_NS" | "rdtype q = rdatatype_SRV" | "rdtype q = rdatatype_SOA"
    using should_answer_types [OF assms(1)] by blast
  then show ?thesis
  proof cases
    case 1 then show ?thesis by (simp add: dispatch_AAAA)
  next
    case 2 then show ?thesis by (simp add: dispatch_A rdatatype_defs)
  next
    case 3 then show ?thesis
      using dispatch_TXT [OF 3 txtresponse_Inr [OF assms(2)]] by (simp add: rdatatype_defs)
  next
    case 4 then show ?thesis by (simp add: dispatch_NS rdatatype_defs)
  next
    case 5 then show ?thesis by (simp add: dispatch_SRV rdatatype_defs)
  next
    case 6 then show ?thesis using dispatch_SOA [OF 6, of E ns] by (auto simp: rdatatype_defs)
  qed
qed

lemma init_fields:
  "init domain_arg view today = Inr ns \<Longrightarrow>
     ipconverter ns = ''.ipaddr.'' @ domain_arg @ ''.'' \<and> replicas ns = view \<and>
     revision ns = today @ ''00''"
  by (auto simp: init_def zfill_def str_int_def str_nat.simps digit_char_def DIGITS_def
      split: sum.splits if_splits)

lemmas ex_defs =
  ex_env_def ex_view_def ex_ns_def ex_question_def ex_srv_question_def ex_name_str_def

lemma name_eq_refl: "name_eq n n"
  by (simp add: name_eq_def)

lemma ex_type_text_values:
  "ex_type_text 1 = ''A''" "ex_type_text 16 = ''TXT''" "ex_type_text 28 = ''AAAA''"
  "ex_type_text 33 = ''SRV''" "ex_type_text 15 = ''MX''"
  by (simp_all add: ex_type_text_def py_index_def RRTYPE_def)

lemmas str_defs = str_int_def str_nat.simps digit_char_def DIGITS_def

lemma ex_init: "init ''example.com'' ex_view ''20240601'' = Inr ex_ns"
  by (simp add: init_def str_find_def dns_Name_def SRVNAME_def zfill_def str_defs ex_ns_def)

lemma ex_should_answer:
  "t \<in> {rdatatype_A, rdatatype_AAAA, rdatatype_TXT, rdatatype_NS, rdatatype_SOA, rdatatype_SRV}
     \<Longrightarrow> should_answer ex_ns (ex_question t)"
  by (auto simp: should_answer_def ismydomainname_def name_eq_domain_def name_eq_refl ex_defs)

lemma ex_roles_named: "roles_named ex_env ex_ns"
  by (simp add: roles_named_def ex_defs)

section \<open>The response builder omits empty sections\<close>

text \<open>
  Claim C8. For every answer, authority and additional text, the response that
  \<open>create_response\<close> builds is the id, opcode, rcode and flags lines and the question section,
  followed by the three sections in order, where a section contributes its header and body
  when its content is not empty and contributes nothing at all when it is empty. The opcode
  and the rcode must index their tables.
\<close>

theorem create_response_sections:
  assumes "- 3 \<le> opcode" and "opcode < 3" and "- 6 \<le> rcode" and "rcode < 6"
  shows "\<exists>opname rcname.
           py_index OPCODES opcode = Inr opname \<and> py_index RCODES rcode = Inr rcname \<and>
           create_response ident opcode rcode flags question answer authority additional =
             Inr (''id '' @ str_int ident @ NL @ ''opcode '' @ opname @ NL @
                  ''rcode '' @ rcname @ NL @ ''flags '' @ flags @ NL @
                  '';QUESTION'' @ NL @ question @ NL @
                  section_text '';ANSWER'' answer @
                  section_text '';AUTHORITY'' authority @
                  section_text '';ADDITIONAL'' additional) \<and>
           (section_text '';ANSWER'' answer = [] \<longleftrightarrow> answer = []) \<and>
           (section_text '';AUTHORITY'' authority = [] \<longleftrightarrow> authority = []) \<and>
           (section_text '';ADDITIONAL'' additional = [] \<longleftrightarrow> additional = [])"
  using assms
  by (simp add: create_response_def py_index_def OPCODES_def RCODES_def section_text_def Let_def)

theorem create_response_sections_witness:
  "- 3 \<le> (0::int) \<and> (0::int) < 3 \<and> - 6 \<le> (0::int) \<and> (0::int) < 6 \<and>
   create_response 7 0 0 ''QR AA'' ''q'' ''a'' [] [] =
     Inr (''id 7'' @ NL @ ''opcode QUERY'' @ NL @ ''rcode NOERROR'' @ NL @ ''flags QR AA'' @ NL @
          '';QUESTION'' @ NL @ ''q'' @ NL @ '';ANSWER'' @ NL @ ''a'' @ NL)"
  using create_response_sections [where opcode = 0 and rcode = 0 and ident = 7
      and flags = "''QR AA''" and question = "''q''" and answer = "''a''"
      and authority = "[]" and additional = "[]"]
  by (simp add: py_index_def OPCODES_def RCODES_def section_text_def str_defs)

section \<open>Answers by record type\<close>

text \<open>
  Claim C5. For a question of type ADDRESS that should be answered, the answer text is the
  lines of exactly one answer record per replica of the view, in the order of the view: owner
  the queried name, time to live 30, class IN, type A and payload the address of the replica.
  The response text carries these lines in its answer section.
\<close>

theorem address_query_records:
  assumes "should_answer ns q" and "rdtype q = rdatatype_A"
  shows "let rrs = map (\<lambda>peer. \<lparr>rr_owner = name_str E (qname q), rr_ttl = 30, rr_class = ''IN'',
                                 rr_type = ''A'', rr_data = addr peer\<rparr>) (replicas ns)
         in dispatch E ns q = Inr (''QR AA'', concat (map rr_line rrs)) \<and>
            answer_question E ns ident q =
              Inr (response_head ident ''QR AA'' (to_text E q) @
                   section_text '';ANSWER'' (concat (map rr_line rrs))) \<and>
            length rrs = length (replicas ns) \<and>
            map rr_data rrs = map addr (replicas ns)"
proof -
  have d: "dispatch E ns q =
      Inr (''QR AA'', concat (map rr_line (map (\<lambda>peer. \<lparr>rr_owner = name_str E (qname q),
        rr_ttl = 30, rr_class = ''IN'', rr_type = ''A'', rr_data = addr peer\<rparr>) (replicas ns))))"
    using assms(2) by (simp add: dispatch_A aresponse_def get_addresses_def comp_def)
  show ?thesis
    unfolding Let_def using d answer_question_text [OF d] by (simp add: comp_def)
qed

theorem address_query_records_witness:
  "should_answer ex_ns (ex_question rdatatype_A) \<and>
   rdtype (ex_question rdatatype_A) = rdatatype_A \<and>
   dispatch ex_env ex_ns (ex_question rdatatype_A) =
     Inr (''QR AA'', ''example.com. 30 IN A 10.0.0.1'' @ NL @ ''example.com. 30 IN A 10.0.0.2'' @ NL)"
proof -
  have h1: "should_answer ex_ns (ex_question rdatatype_A)"
    by (simp add: ex_should_answer)
  have h2: "rdtype (ex_question rdatatype_A) = rdatatype_A"
    by (simp add: ex_question_def)
  show ?thesis
    using h1 h2 address_query_records [OF h1 h2, of ex_env 7]
    by (simp add: Let_def ex_defs rr_line_def str_defs)
qed

text \<open>
  Claim C6. For a question of type SERVICE that should be answered, on a nameserver built by
  \<open>init\<close> for a domain, the answer text is the lines of one answer record per (address, port)
  pair of the view: owner the queried name, priority 0, weight 100, the port of the pair, and
  target the address followed by \<open>.ipaddr.\<close>, the domain and a dot.
\<close>

theorem service_query_records:
  assumes "init domain_arg view today = Inr ns" and "should_answer ns q"
    and "rdtype q = rdatatype_SRV"
  shows "let rrs = map (\<lambda>(address, p). \<lparr>rr_owner = name_str E (qname q), rr_ttl = 30,
                         rr_class = ''IN'', rr_type = ''SRV'',
                         rr_data = srv_data 0 100 p (address @ ''.ipaddr.'' @ domain_arg @ ''.'')\<rparr>)
                       (get_addressportpairs view)
         in dispatch E ns q = Inr (''QR AA'', concat (map rr_line rrs)) \<and>
            answer_question E ns ident q =
              Inr (response_head ident ''QR AA'' (to_text E q) @
                   section_text '';ANSWER'' (concat (map rr_line rrs))) \<and>
            length rrs = length (get_addressportpairs view)"
proof -
  have d: "dispatch E ns q =
      Inr (''QR AA'', concat (map rr_line (map (\<lambda>(address, p). \<lparr>rr_owner = name_str E (qname q),
        rr_ttl = 30, rr_class = ''IN'', rr_type = ''SRV'',
        rr_data = srv_data 0 100 p (address @ ''.ipaddr.'' @ domain_arg @ ''.'')\<rparr>)
        (get_addressportpairs view))))"
    using assms(3) init_fields [OF assms(1)]
    by (simp add: dispatch_SRV srvresponse_def get_addressportpairs_def comp_def)
  show ?thesis
    unfolding Let_def using d answer_question_text [OF d] by simp
qed

theorem service_query_records_witness:
  "init ''example.com'' ex_view ''20240601'' = Inr ex_ns \<and>
   should_answer ex_ns ex_srv_question \<and>
   rdtype ex_srv_question = rdatatype_SRV \<and>
   dispatch ex_env ex_ns ex_srv_question =
     Inr (''QR AA'',
          ''_concoord._tcp.example.com. 30 IN SRV 0 100 14000 10.0.0.1.ipaddr.example.com.'' @ NL @
          ''_concoord._tcp.example.com. 30 IN SRV 0 100 14001 10.0.0.2.ipaddr.example.com.'' @ NL)"
proof -
  have h1: "should_answer ex_ns ex_srv_question"
    by (simp add: should_answer_def ismydomainname_def name_eq_refl ex_defs)
  have h2: "rdtype ex_srv_question = rdatatype_SRV"
    by (simp add: ex_srv_question_def)
  show ?thesis
    using ex_init h1 h2 service_query_records [OF ex_init h1 h2, of ex_env 7]
    by (simp add: Let_def ex_defs rr_line_def srv_data_def get_addressportpairs_def str_defs)
qed

text \<open>
  Claim C7. For a question that should be answered (the table of role names covering the
  view): a question of type ADDRESS6 gets the flags \<open>QR\<close> and an empty answer text, so that
  the response text has no answer section; a question of any other type gets the flags
  \<open>QR AA\<close>.
\<close>

theorem response_flags:
  assumes "should_answer ns q" and "roles_named E ns"
  shows "(rdtype q = rdatatype_AAAA \<longrightarrow>
            dispatch E ns q = Inr (''QR'', []) \<and>
            answer_question E ns ident q = Inr (response_head ident ''QR'' (to_text E q))) \<and>
         (rdtype q \<noteq> rdatatype_AAAA \<longrightarrow>
            (\<exists>answerstr. dispatch E ns q = Inr (''QR AA'', answerstr) \<and>
               answer_question E ns ident q =
                 Inr (response_head ident ''QR AA'' (to_text E q) @
                      section_text '';ANSWER'' answerstr)))"
proof (intro conjI impI)
  assume t: "rdtype q = rdatatype_AAAA"
  then show "dispatch E ns q = Inr (''QR'', [])" by (rule dispatch_AAAA)
  from answer_question_text [OF dispatch_AAAA [OF t]]
  show "answer_question E ns ident q = Inr (response_head ident ''QR'' (to_text E q))"
    by (simp add: section_text_def)
next
  assume "rdtype q \<noteq> rdatatype_AAAA"
  with dispatch_total [OF assms] obtain answerstr
    where d: "dispatch E ns q = Inr (''QR AA'', answerstr)" by auto
  from d answer_question_text [OF d]
  show "\<exists>answerstr. dispatch E ns q = Inr (''QR AA'', answerstr) \<and>
          answer_question E ns ident q =
            Inr (response_head ident ''QR AA'' (to_text E q) @ section_text '';ANSWER'' answerstr)"
    by blast
qed

theorem response_flags_witness:
  "should_answer ex_ns (ex_question rdatatype_AAAA) \<and> roles_named ex_env ex_ns \<and>
   answer_question ex_env ex_ns 7 (ex_question rdatatype_AAAA) =
     Inr (''id 7'' @ NL @ ''opcode QUERY'' @ NL @ ''rcode NOERROR'' @ NL @ ''flags QR'' @ NL @
          '';QUESTION'' @ NL @ ''example.com. IN AAAA'' @ NL)"
proof -
  have h1: "should_answer ex_ns (ex_question rdatatype_AAAA)"
    by (simp add: ex_should_answer)
  show ?thesis
    using h1 ex_roles_named response_flags [OF h1 ex_roles_named, of 7]
    by (simp add: response_head_def ex_env_def ex_name_str_def ex_type_text_values
        ex_question_def rdatatype_AAAA_def str_defs)
qed

section \<open>The unbound payload of the formatter\<close>

lemma txtresponse_not_unbound: "txtresponse E ns \<noteq> Inl UnboundLocalError"
  using txt_loop_not_unbound [of E "replicas ns" "[]"]
  by (auto simp: txtresponse_def split: sum.splits)

lemma dispatch_not_unbound: "dispatch E ns q \<noteq> Inl UnboundLocalError"
proof -
  consider "rdtype q = rdatatype_AAAA" | "rdtype q = rdatatype_A" | "rdtype q = rdatatype_TXT"
    | "rdtype q = rdatatype_NS" | "rdtype q = rdatatype_SRV" | "rdtype q = rdatatype_SOA"
    | "rdtype q \<noteq> rdatatype_AAAA \<and> rdtype q \<noteq> rdatatype_A \<and> rdtype q \<noteq> rdatatype_TXT \<and>
       rdtype q \<noteq> rdatatype_NS \<and> rdtype q \<noteq> rdatatype_SRV \<and> rdtype q \<noteq> rdatatype_SOA"
    by blast
  then show ?thesis
  proof cases
    case 1 then show ?thesis by (simp add: dispatch_AAAA)
  next
    case 2 then show ?thesis by (simp add: dispatch_A)
  next
    case 3
    show ?thesis
    proof (cases "txtresponse E ns")
      case (Inl e)
      with 3 txtresponse_not_unbound [of E ns] show ?thesis
        by (simp add: dispatch_def rdatatype_defs)
    next
      case (Inr payload)
      from dispatch_TXT [OF 3 Inr] show ?thesis by simp
    qed
  next
    case 4 then show ?thesis by (simp add: dispatch_NS)
  next
    case 5 then show ?thesis by (simp add: dispatch_SRV)
  next
    case 6 then show ?thesis using dispatch_SOA [OF 6, of E ns] by auto
  next
    case 7 then show ?thesis by (simp add: dispatch_def)
  qed
qed

lemma create_response_query: "\<exists>text. create_response ident 0 0 flags question answer [] [] = Inr text"
  by (simp add: create_response_def py_index_def OPCODES_def RCODES_def)

lemma answer_question_not_unbound: "answer_question E ns ident q \<noteq> Inl UnboundLocalError"
proof (cases "dispatch E ns q")
  case (Inl e)
  with dispatch_not_unbound [of E ns q] show ?thesis by (simp add: answer_question_def)
next
  case (Inr fa)
  then show ?thesis
    using create_response_query [of ident "fst fa" "to_text E q" "snd fa"]
    by (auto simp: answer_question_def split: prod.splits)
qed

lemma handle_questions_not_unbound:
  "handle_questions E ns ident qs resp \<noteq> Inl UnboundLocalError"
  by (induction qs arbitrary: resp)
    (auto simp: answer_question_not_unbound split: sum.splits if_splits)

text \<open>
  Claim C10. In \<open>create_answer_section\<close> the payload \<open>resp\<close> is left unassigned exactly when
  the record type is none of ADDRESS, TEXT and NAME_SERVER, and the function raises on the
  unassigned payload only then. The dispatcher calls the function for these three types only:
  neither the dispatch of a question nor the handling of a query ever ends in that exception.
\<close>

theorem payload_always_assigned:
  "(answer_resp q address txt = None \<longleftrightarrow>
      rdtype q \<noteq> rdatatype_A \<and> rdtype q \<noteq> rdatatype_TXT \<and> rdtype q \<noteq> rdatatype_NS) \<and>
   (create_answer_section E q ttl rrclass address txt = Inl UnboundLocalError \<longrightarrow>
      answer_resp q address txt = None) \<and>
   dispatch E ns q \<noteq> Inl UnboundLocalError \<and>
   handle_query E ns qry \<noteq> Inl UnboundLocalError"
proof (intro conjI)
  show "answer_resp q address txt = None \<longleftrightarrow>
      rdtype q \<noteq> rdatatype_A \<and> rdtype q \<noteq> rdatatype_TXT \<and> rdtype q \<noteq> rdatatype_NS"
    by (simp add: answer_resp_def)
  show "create_answer_section E q ttl rrclass address txt = Inl UnboundLocalError \<longrightarrow>
      answer_resp q address txt = None"
    by (auto simp: create_answer_section_def py_index_def split: sum.splits option.splits if_splits)
  show "dispatch E ns q \<noteq> Inl UnboundLocalError"
    by (rule dispatch_not_unbound)
  show "handle_query E ns qry \<noteq> Inl UnboundLocalError"
    using handle_questions_not_unbound [of E ns "qid qry" "questions qry" "make_response qry"]
    by (auto simp: handle_query_def split: sum.splits option.splits)
qed

theorem payload_always_assigned_witness:
  "answer_resp (ex_question 15) ''10.0.0.1'' None = None \<and>
   create_answer_section ex_env (ex_question 15) 30 1 ''10.0.0.1'' None = Inl UnboundLocalError \<and>
   dispatch ex_env ex_ns (ex_question 15) = Inr (''QR AA'', [])"
  using payload_always_assigned [of "ex_question 15" "''10.0.0.1''" None ex_env 30 1 ex_ns
      "\<lparr>qid = 7, questions = [ex_question 15]\<rparr>"]
  by (simp add: create_answer_section_def py_index_def RRCLASS_def RRTYPE_def ex_question_def
      dispatch_def rdatatype_defs answer_resp_def)

section \<open>Queries with several questions\<close>

lemma handle_questions_all:
  "handle_questions E ns ident qs resp = Inr (Some r) \<Longrightarrow> list_all (should_answer ns) qs"
  by (induction qs arbitrary: resp) (auto split: if_splits sum.splits)


lemma handle_questions_last:
  "handle_questions E ns ident qs resp = Inr (Some r) \<Longrightarrow> qs \<noteq> [] \<Longrightarrow>
     \<exists>responsestr. answer_question E ns ident (last qs) = Inr responsestr \<and>
       from_text_ok E responsestr \<and> r = from_text responsestr"
proof (induction qs arbitrary: resp)
  case Nil
  then show ?case by simp
next
  case (Cons q qs)
  show ?case
  proof (cases "qs = []")
    case True
    with Cons.prems show ?thesis by (auto split: if_splits sum.splits)
  next
    case False
    with Cons.prems Cons.IH show ?thesis by (auto split: if_splits sum.splits)
  qed
qed

lemma handle_query_sent:
  "handle_query E ns qry = Inr (Some r) \<longleftrightarrow>
     handle_questions E ns (qid qry) (questions qry) (make_response qry) = Inr (Some r) \<and>
     to_wire_ok E r"
  by (auto simp: handle_query_def split: sum.splits option.splits if_splits)








text \<open>
  Claim C9. When a response is sent for a query with two or more questions that should be
  answered, it is the response read from the text built for the last of them alone: the same
  response as for the query with only that question.
\<close>

theorem last_question_wins:
  assumes "handle_query E ns qry = Inr (Some r)"
    and "2 \<le> length (filter (should_answer ns) (questions qry))"
  shows "\<exists>responsestr.
           answer_question E ns (qid qry) (last (filter (should_answer ns) (questions qry))) =
             Inr responsestr \<and>
           r = from_text responsestr \<and>
           handle_query E ns (qry\<lparr>questions := [last (filter (should_answer ns) (questions qry))]\<rparr>) =
             Inr (Some r)"
proof -
  let ?qs = "questions qry"
  from assms(1) have sent: "handle_questions E ns (qid qry) ?qs (make_response qry) = Inr (Some r)"
    and wire: "to_wire_ok E r"
    by (simp_all add: handle_query_sent)
  from handle_questions_all [OF sent] have all: "list_all (should_answer ns) ?qs" .
  then have same: "filter (should_answer ns) ?qs = ?qs"
    by (simp add: list_all_iff)
  with assms(2) have ne: "?qs \<noteq> []" by auto
  from handle_questions_last [OF sent ne] obtain responsestr
    where a: "answer_question E ns (qid qry) (last ?qs) = Inr responsestr"
      and ok: "from_text_ok E responsestr"
      and r: "r = from_text responsestr" by blast
  from all ne have "should_answer ns (last ?qs)"
    by (simp add: list_all_iff)
  with a ok r wire same show ?thesis
    by (simp add: handle_query_sent)
qed

theorem last_question_wins_witness:
  "handle_query ex_env ex_ns
     \<lparr>qid = 7, questions = [ex_question rdatatype_A, ex_question rdatatype_AAAA]\<rparr> =
     Inr (Some (from_text (response_head 7 ''QR'' ''example.com. IN AAAA''))) \<and>
   2 \<le> length (filter (should_answer ex_ns) [ex_question rdatatype_A, ex_question rdatatype_AAAA]) \<and>
   handle_query ex_env ex_ns \<lparr>qid = 7, questions = [ex_question rdatatype_AAAA]\<rparr> =
     Inr (Some (from_text (response_head 7 ''QR'' ''example.com. IN AAAA'')))"
proof -
  let ?qry = "\<lparr>qid = 7, questions = [ex_question rdatatype_A, ex_question rdatatype_AAAA]\<rparr>"
  have d1: "dispatch ex_env ex_ns (ex_question rdatatype_AAAA) = Inr (''QR'', [])"
    by (simp add: dispatch_AAAA ex_question_def)
  have d2: "\<exists>a. dispatch ex_env ex_ns (ex_question rdatatype_A) = Inr (''QR AA'', a)"
    by (simp add: dispatch_A ex_question_def)
  have t: "to_text ex_env (ex_question rdatatype_AAAA) = ''example.com. IN AAAA''"
    by (simp add: ex_env_def ex_name_str_def ex_type_text_values ex_question_def
        rdatatype_AAAA_def)
  have ok: "from_text_ok ex_env responsestr" "to_wire_ok ex_env resp" for responsestr resp
    by (simp_all add: ex_env_def)
  have h1: "handle_query ex_env ex_ns ?qry =
      Inr (Some (from_text (response_head 7 ''QR'' ''example.com. IN AAAA'')))"
    using d2 answer_question_text [OF d1, of 7] t
    by (auto simp: handle_query_sent ok ex_should_answer answer_question_text section_text_def)
  have h2: "2 \<le> length (filter (should_answer ex_ns) (questions ?qry))"
    by (simp add: ex_should_answer)
  show ?thesis
    using h1 h2 last_question_wins [OF h1 h2]
    by (simp add: ex_should_answer)
qed

section \<open>The zone revision state machine\<close>

lemma starts_with_iff: "starts_with s p \<longleftrightarrow> (\<exists>suf. s = p @ suf)"
  by (induction s p rule: starts_with.induct) auto

lemma contains_iff: "contains s p \<longleftrightarrow> (\<exists>pre suf. s = pre @ p @ suf)"
proof (induction s)
  case Nil
  then show ?case by auto
next
  case (Cons c cs)
  show ?case
  proof
    assume "contains (c # cs) p"
    then consider "starts_with (c # cs) p" | "contains cs p" by auto
    then show "\<exists>pre suf. c # cs = pre @ p @ suf"
    proof cases
      case 1
      then obtain suf where "c # cs = p @ suf" by (auto simp: starts_with_iff)
      then have "c # cs = [] @ p @ suf" by simp
      then show ?thesis by blast
    next
      case 2
      with Cons.IH obtain pre suf where "cs = pre @ p @ suf" by blast
      then have "c # cs = (c # pre) @ p @ suf" by simp
      then show ?thesis by blast
    qed
  next
    assume "\<exists>pre suf. c # cs = pre @ p @ suf"
    then obtain pre suf where e: "c # cs = pre @ p @ suf" by blast
    show "contains (c # cs) p"
    proof (cases pre)
      case Nil
      with e have "starts_with (c # cs) p" by (auto simp: starts_with_iff)
      then show ?thesis by simp
    next
      case (Cons x pre')
      with e have "cs = pre' @ p @ suf" by simp
      with Cons.IH have "contains cs p" by blast
      then show ?thesis by simp
    qed
  qed
qed

lemma contains_prefix: "contains (p @ suf) p"
  unfolding contains_iff by (rule exI [of _ "[]"]) simp

lemma contains_other_day:
  assumes "contains s p" and "length s = length p + 2"
  shows "take (length p) s = p \<or> take (length p) (drop 1 s) = p \<or> drop 2 s = p"
proof -
  from assms(1) obtain pre suf where e: "s = pre @ p @ suf"
    unfolding contains_iff by blast
  with assms(2) have l: "length pre + length suf = 2" by simp
  from e have t: "take (length p) (drop (length pre) s) = p" by simp
  from l have "length pre = 0 \<or> length pre = 1 \<or> length pre = 2 \<and> length suf = 0"
    by arith
  then consider "length pre = 0" | "length pre = 1" | "length pre = 2 \<and> suf = []"
    by auto
  then show ?thesis
  proof cases
    case 1
    with t show ?thesis by simp
  next
    case 2
    with t show ?thesis by simp
  next
    case 3
    with e have "drop 2 s = p" by simp
    then show ?thesis by simp
  qed
qed

lemma digit_char_cases:
  "d < 10 \<Longrightarrow> d = 0 \<or> d = 1 \<or> d = 2 \<or> d = 3 \<or> d = 4 \<or> d = 5 \<or> d = 6 \<or> d = 7 \<or> d = 8 \<or> d = (9::nat)"
  by arith

lemma digit_val_digit_char: "d < 10 \<Longrightarrow> digit_val (digit_char d) = Some d"
  using digit_char_cases [of d] by (auto simp: digit_val_def digit_char_def DIGITS_def)

lemma digit_char_in: "digit_char d \<in> set DIGITS"
  unfolding digit_char_def by (rule nth_mem) (simp add: DIGITS_def)

lemma not_digits:
  "CHR ''+'' \<notin> set DIGITS" "CHR ''-'' \<notin> set DIGITS" "CHR '';'' \<notin> set DIGITS"
  by (simp_all add: DIGITS_def)

lemma digit_char_not_sign: "digit_char d \<noteq> CHR ''+''" "digit_char d \<noteq> CHR ''-''"
  using digit_char_in [of d] not_digits by metis+

lemma str_nat_digits: "set (str_nat n) \<subseteq> set DIGITS"
proof (induction n rule: str_nat.induct)
  case (1 n)
  show ?case
  proof (cases "n < 10")
    case True
    then show ?thesis using digit_char_in [of n] by (subst str_nat.simps) simp
  next
    case False
    then show ?thesis
      using 1 digit_char_in [of "n mod 10"] by (subst str_nat.simps) simp
  qed
qed

lemma str_nat_nonempty: "str_nat n \<noteq> []"
  by (subst str_nat.simps) simp

lemma last_str_nat: "last (str_nat n) = digit_char (n mod 10)"
  by (subst str_nat.simps) (simp add: digit_char_def)

lemma serial_two_digits:
  assumes "n < 100"
  shows "zfill 2 (str_int (int n)) = [digit_char (n div 10), digit_char (n mod 10)]"
proof (cases "n < 10")
  case True
  have z: "digit_char 0 = CHR ''0''" by (simp add: digit_char_def DIGITS_def)
  from True have "str_int (int n) = [digit_char n]"
    by (simp add: str_int_def str_nat.simps [of n])
  with True z show ?thesis
    by (simp add: zfill_def digit_char_not_sign)
next
  case False
  with assms have d: "n div 10 < 10" by simp
  from False d have "str_int (int n) = [digit_char (n div 10), digit_char (n mod 10)]"
    by (simp add: str_int_def str_nat.simps [of n] str_nat.simps [of "n div 10"])
  then show ?thesis
    by (simp add: zfill_def digit_char_not_sign)
qed

lemma int_of_serial:
  assumes "n < 100"
  shows "int_of_two (digit_char (n div 10)) (digit_char (n mod 10)) = Inr (int n)"
proof -
  from assms have "n div 10 < 10" by simp
  then show ?thesis
    by (simp add: int_of_two_def digit_val_digit_char)
qed

lemma py_index_last_two:
  "py_index (day @ [a, b]) (- 2) = Inr a" "py_index (day @ [a, b]) (- 1) = Inr b"
proof -
  have "nat (int (length (day @ [a, b])) + - 2) = length day"
    and "nat (int (length (day @ [a, b])) + - 1) = Suc (length day)"
    by simp_all
  then show "py_index (day @ [a, b]) (- 2) = Inr a" "py_index (day @ [a, b]) (- 1) = Inr b"
    unfolding py_index_def by (simp_all add: nth_append del: length_append)
qed

lemma update_same_day:
  assumes "revision ns = today @ zfill 2 (str_int (int n))" and "n < 100"
  shows "update today ns = Inr (ns\<lparr>revision := today @ zfill 2 (str_int (int (Suc n)))\<rparr>)"
  using assms
  by (simp add: update_def contains_prefix serial_two_digits py_index_last_two int_of_serial
      add.commute)

lemma update_reset:
  "\<not> contains (revision ns) today \<Longrightarrow>
     update today ns = Inr (ns\<lparr>revision := today @ ''00''\<rparr>)"
  by (simp add: update_def zfill_def str_defs)

lemma updates_same_day:
  "revision ns = today @ zfill 2 (str_int (int n)) \<Longrightarrow> n + k \<le> 100 \<Longrightarrow>
     updates (replicate k today) ns =
       Inr (ns\<lparr>revision := today @ zfill 2 (str_int (int (n + k)))\<rparr>)"
proof (induction k arbitrary: ns n)
  case 0
  then show ?case by simp
next
  case (Suc k)
  from Suc.prems have n: "n < 100" by simp
  let ?ns = "ns\<lparr>revision := today @ zfill 2 (str_int (int (Suc n)))\<rparr>"
  have "updates (replicate k today) ?ns =
      Inr (?ns\<lparr>revision := today @ zfill 2 (str_int (int (Suc n + k)))\<rparr>)"
    using Suc.prems by (intro Suc.IH) simp_all
  with update_same_day [OF Suc.prems(1) n] show ?case by simp
qed

text \<open>
  Claim C2, as the code has it. At construction the revision is the day followed by \<open>00\<close>.
  An update on the day of the stored revision, whose serial is below 99, replaces the serial
  by its successor, again of two digits; so the first 99 updates of a day after a reset give
  the serials 01 to 99 in order. An update on a day whose eight characters are neither the
  stored day nor the characters of the stored revision from its second or from its third
  position resets the revision to the new day followed by \<open>00\<close>.
\<close>

theorem revision_state_machine:
  "(init domain_arg view today = Inr ns0 \<longrightarrow> revision ns0 = today @ ''00'') \<and>
   (revision ns = today @ zfill 2 (str_int (int n)) \<and> n < 99 \<longrightarrow>
      update today ns = Inr (ns\<lparr>revision := today @ zfill 2 (str_int (int (Suc n)))\<rparr>) \<and>
      length (zfill 2 (str_int (int (Suc n)))) = 2) \<and>
   (revision ns = today @ ''00'' \<and> k \<le> 99 \<longrightarrow>
      updates (replicate k today) ns =
        Inr (ns\<lparr>revision := today @ zfill 2 (str_int (int k))\<rparr>)) \<and>
   (length (revision ns') = length today' + 2 \<and>
    take (length today') (revision ns') \<noteq> today' \<and>
    take (length today') (drop 1 (revision ns')) \<noteq> today' \<and>
    drop 2 (revision ns') \<noteq> today' \<longrightarrow>
      update today' ns' = Inr (ns'\<lparr>revision := today' @ ''00''\<rparr>))"
proof (intro conjI impI)
  assume "init domain_arg view today = Inr ns0"
  then show "revision ns0 = today @ ''00''" by (simp add: init_fields)
next
  assume a: "revision ns = today @ zfill 2 (str_int (int n)) \<and> n < 99"
  then show "update today ns = Inr (ns\<lparr>revision := today @ zfill 2 (str_int (int (Suc n)))\<rparr>)"
    by (simp add: update_same_day)
  from a have "Suc n < 100" by simp
  from serial_two_digits [OF this]
  show "length (zfill 2 (str_int (int (Suc n)))) = 2" by simp
next
  assume a: "revision ns = today @ ''00'' \<and> k \<le> 99"
  have "zfill 2 (str_int (int 0)) = ''00''" by (simp add: zfill_def str_defs)
  with a have "revision ns = today @ zfill 2 (str_int (int 0))" by simp
  from updates_same_day [OF this, of k] a
  show "updates (replicate k today) ns = Inr (ns\<lparr>revision := today @ zfill 2 (str_int (int k))\<rparr>)"
    by simp
next
  assume a: "length (revision ns') = length today' + 2 \<and>
    take (length today') (revision ns') \<noteq> today' \<and>
    take (length today') (drop 1 (revision ns')) \<noteq> today' \<and>
    drop 2 (revision ns') \<noteq> today'"
  then have "\<not> contains (revision ns') today'"
    using contains_other_day [of "revision ns'" today'] by auto
  then show "update today' ns' = Inr (ns'\<lparr>revision := today' @ ''00''\<rparr>)"
    by (rule update_reset)
qed

theorem revision_state_machine_witness:
  "init ''example.com'' ex_view ''20240601'' = Inr ex_ns \<and>
   update ''20240601'' ex_ns = Inr (ex_ns\<lparr>revision := ''2024060101''\<rparr>) \<and>
   updates (replicate 3 ''20240601'') ex_ns = Inr (ex_ns\<lparr>revision := ''2024060103''\<rparr>) \<and>
   update ''20240602'' ex_ns = Inr (ex_ns\<lparr>revision := ''2024060200''\<rparr>)"
proof -
  have s0: "zfill 2 (str_int (int 0)) = ''00''" by (simp add: zfill_def str_defs)
  have s1: "zfill 2 (str_int (int (Suc 0))) = ''01''" by (simp add: zfill_def str_defs)
  have s3: "zfill 2 (str_int (int 3)) = ''03''" by (simp add: zfill_def str_defs)
  have r: "revision ex_ns = ''2024060100''" by (simp add: ex_ns_def)
  show ?thesis
    using ex_init
      revision_state_machine [where domain_arg = "''example.com''" and view = ex_view
        and today = "''20240601''" and ns0 = ex_ns and ns = ex_ns and n = 0 and k = 3
        and ns' = ex_ns and today' = "''20240602''"]
    unfolding s0 s1 s3 r by simp
qed

text \<open>
  Claim C2 as stated fails. A hundred updates on one day lead to the serial \<open>100\<close>, of three
  digits, and the next update of that day reads its last two digits and stores the serial
  \<open>01\<close>. An update on another day whose date occurs inside the stored revision does not
  reset: the date 21010105 occurs in the revision 2021010105, and the serial goes to 06.
\<close>

theorem serial_overflow_counterexample:
  "updates (replicate 100 ''20240601'') ex_ns = Inr (ex_ns\<lparr>revision := ''20240601100''\<rparr>) \<and>
   update ''20240601'' (ex_ns\<lparr>revision := ''20240601100''\<rparr>) =
     Inr (ex_ns\<lparr>revision := ''2024060101''\<rparr>) \<and>
   update ''21010105'' (ex_ns\<lparr>revision := ''2021010105''\<rparr>) =
     Inr (ex_ns\<lparr>revision := ''2101010506''\<rparr>)"
proof (intro conjI)
  have "revision ex_ns = ''20240601'' @ zfill 2 (str_int (int 0))"
    by (simp add: ex_ns_def zfill_def str_defs)
  from updates_same_day [OF this, of 100]
  show "updates (replicate 100 ''20240601'') ex_ns = Inr (ex_ns\<lparr>revision := ''20240601100''\<rparr>)"
    by (simp add: zfill_def str_defs)
  show "update ''20240601'' (ex_ns\<lparr>revision := ''20240601100''\<rparr>) =
     Inr (ex_ns\<lparr>revision := ''2024060101''\<rparr>)"
    by (simp add: update_def py_index_def int_of_two_def digit_val_def zfill_def str_defs)
  show "update ''21010105'' (ex_ns\<lparr>revision := ''2021010105''\<rparr>) =
     Inr (ex_ns\<lparr>revision := ''2101010506''\<rparr>)"
    by (simp add: update_def py_index_def int_of_two_def digit_val_def zfill_def str_defs)
qed

section \<open>The TEXT answer\<close>

lemma split_no_sep: "sep \<notin> set s \<Longrightarrow> str_split sep s = [s]"
  by (induction s) auto

lemma split_append_sep: "sep \<notin> set s \<Longrightarrow> str_split sep (s @ sep # t) = s # str_split sep t"
  by (induction s) auto

lemma split_join:
  "segs \<noteq> [] \<Longrightarrow> (\<And>s. s \<in> set segs \<Longrightarrow> sep \<notin> set s) \<Longrightarrow>
     str_split sep (join_with sep segs) = segs"
  by (induction sep segs rule: join_with.induct) (simp_all add: split_no_sep split_append_sep)

lemma join_nonempty: "segs \<noteq> [] \<Longrightarrow> last segs \<noteq> [] \<Longrightarrow> join_with sep segs \<noteq> []"
  by (induction sep segs rule: join_with.induct) simp_all

lemma last_join:
  "segs \<noteq> [] \<Longrightarrow> last segs \<noteq> [] \<Longrightarrow> last (join_with sep segs) = last (last segs)"
proof (induction sep segs rule: join_with.induct)
  case (3 sep s t rest)
  then have "last (t # rest) \<noteq> []" by simp
  with join_nonempty [of "t # rest" sep] have "join_with sep (t # rest) \<noteq> []" by simp
  with 3 show ?case by simp
qed simp_all

lemma butlast_concat_join:
  "view \<noteq> [] \<Longrightarrow>
     butlast (concat (map (\<lambda>peer. f peer @ [sep]) view)) = join_with sep (map f view)"
proof (induction view)
  case Nil
  then show ?case by simp
next
  case (Cons peer rest)
  show ?case
  proof (cases rest)
    case Nil
    then show ?thesis by simp
  next
    case (Cons peer' rest')
    with Cons.IH have "butlast (concat (map (\<lambda>peer. f peer @ [sep]) rest)) =
        join_with sep (map f rest)" by simp
    with Cons show ?thesis by (simp add: butlast_append)
  qed
qed

lemma str_int_chars: "set (str_int i) \<subseteq> insert CHR ''-'' (set DIGITS)"
proof (cases "i < 0")
  case True
  then have "str_int i = CHR ''-'' # str_nat (nat (- i))" by (simp add: str_int_def)
  with str_nat_digits [of "nat (- i)"] show ?thesis by auto
next
  case False
  then have "str_int i = str_nat (nat i)" by (simp add: str_int_def)
  with str_nat_digits [of "nat i"] show ?thesis by auto
qed

lemma str_int_nonempty: "str_int i \<noteq> []"
  by (simp add: str_int_def str_nat_nonempty)

lemma last_str_int: "last (str_int i) \<in> set DIGITS"
  by (simp add: str_int_def str_nat_nonempty last_str_nat digit_char_in)

lemma txt_segment_last: "last (txt_segment E peer) \<noteq> CHR '';''"
proof -
  have "last (txt_segment E peer) = last (str_int (port peer))"
    by (simp add: txt_segment_def str_int_nonempty)
  with last_str_int [of "port peer"] not_digits(3) show ?thesis by metis
qed

lemma txt_segment_nonempty: "txt_segment E peer \<noteq> []"
  by (simp add: txt_segment_def)

lemma txt_segment_semicolon_free:
  assumes "CHR '';'' \<notin> set (addr peer)"
    and "case node_names E (rtype peer) of None \<Rightarrow> True | Some role \<Rightarrow> CHR '';'' \<notin> set role"
  shows "CHR '';'' \<notin> set (txt_segment E peer)"
proof -
  have p: "CHR '';'' \<notin> set (str_int (port peer))"
    using str_int_chars [of "port peer"] not_digits(3) by auto
  have r: "CHR '';'' \<notin> set (case node_names E (rtype peer) of None \<Rightarrow> [] | Some role \<Rightarrow> role)"
    using assms(2) by (cases "node_names E (rtype peer)") simp_all
  from assms(1) p r show ?thesis
    by (simp add: txt_segment_def)
qed

text \<open>
  Claim C4, as the code has it. For a view that is not empty, whose roles all have a name and
  whose role names and addresses contain no semicolon, a TEXT question that should be answered
  gets exactly one answer record; its payload, between double quotes, is the segments of the
  replicas joined by semicolons, so that splitting it on the semicolon gives exactly one
  segment per replica in the order of the view, each the role name, a space, the address, a
  colon and the port, and the payload does not end in a semicolon.
\<close>

theorem text_query_record:
  assumes "should_answer ns q" and "rdtype q = rdatatype_TXT" and "replicas ns \<noteq> []"
    and "roles_named E ns" and "semicolon_free E ns"
  shows "\<exists>payload.
           dispatch E ns q =
             Inr (''QR AA'',
                  rr_line \<lparr>rr_owner = name_str E (qname q), rr_ttl = 30, rr_class = ''IN'',
                           rr_type = ''TXT'', rr_data = [CHR 0x22] @ payload @ [CHR 0x22]\<rparr>) \<and>
           payload = join_with CHR '';'' (map (txt_segment E) (replicas ns)) \<and>
           str_split CHR '';'' payload = map (txt_segment E) (replicas ns) \<and>
           payload \<noteq> [] \<and> last payload \<noteq> CHR '';''"
proof -
  let ?segs = "map (txt_segment E) (replicas ns)"
  let ?payload = "join_with CHR '';'' ?segs"
  have t: "txtresponse E ns = Inr ?payload"
    using txtresponse_Inr [OF assms(4)] butlast_concat_join [OF assms(3), of "txt_segment E" "CHR '';''"]
    by simp
  have ne: "?segs \<noteq> []" using assms(3) by simp
  have l: "last ?segs \<noteq> []" using assms(3) by (simp add: last_map txt_segment_nonempty)
  have free: "CHR '';'' \<notin> set s" if "s \<in> set ?segs" for s
  proof -
    from that obtain peer where p: "peer \<in> set (replicas ns)" and s: "s = txt_segment E peer"
      by auto
    from p assms(5) have "CHR '';'' \<notin> set (addr peer)"
      and "case node_names E (rtype peer) of None \<Rightarrow> True | Some role \<Rightarrow> CHR '';'' \<notin> set role"
      by (simp_all add: semicolon_free_def list_all_iff)
    then show ?thesis unfolding s by (rule txt_segment_semicolon_free)
  qed
  have s: "str_split CHR '';'' ?payload = ?segs"
    using ne free by (rule split_join)
  have "last ?payload = last (last ?segs)" using ne l by (rule last_join)
  then have e: "last ?payload \<noteq> CHR '';''"
    using assms(3) by (simp add: last_map txt_segment_last)
  have n: "?payload \<noteq> []" using ne l by (rule join_nonempty)
  from dispatch_TXT [OF assms(2) t] s e n show ?thesis by blast
qed

theorem text_query_record_witness:
  "should_answer ex_ns (ex_question rdatatype_TXT) \<and>
   rdtype (ex_question rdatatype_TXT) = rdatatype_TXT \<and> replicas ex_ns \<noteq> [] \<and>
   roles_named ex_env ex_ns \<and> semicolon_free ex_env ex_ns \<and>
   dispatch ex_env ex_ns (ex_question rdatatype_TXT) =
     Inr (''QR AA'',
          ''example.com. 30 IN TXT '' @ [CHR 0x22] @
          ''REPLICA 10.0.0.1:14000;NAMESERVER 10.0.0.2:14001'' @ [CHR 0x22] @ NL) \<and>
   str_split CHR '';'' ''REPLICA 10.0.0.1:14000;NAMESERVER 10.0.0.2:14001'' =
     [''REPLICA 10.0.0.1:14000'', ''NAMESERVER 10.0.0.2:14001'']"
proof -
  have h1: "should_answer ex_ns (ex_question rdatatype_TXT)"
    by (simp add: ex_should_answer)
  have h2: "rdtype (ex_question rdatatype_TXT) = rdatatype_TXT"
    by (simp add: ex_question_def)
  have h3: "replicas ex_ns \<noteq> []"
    by (simp add: ex_ns_def ex_view_def)
  have h5: "semicolon_free ex_env ex_ns"
    by (simp add: semicolon_free_def ex_defs)
  show ?thesis
    using h1 h2 h3 ex_roles_named h5 text_query_record [OF h1 h2 h3 ex_roles_named h5]
    by (simp add: ex_defs rr_line_def txt_segment_def str_defs)
qed

text \<open>
  Claim C4 as stated fails on the empty view: the payload is the empty string, which splits
  into one (empty) segment, while the view has no replica. It also fails on a view of one
  replica whose address contains a semicolon: the payload splits into two segments.
\<close>

theorem text_query_counterexample:
  "should_answer (ex_ns\<lparr>replicas := []\<rparr>) (ex_question rdatatype_TXT) \<and>
   dispatch ex_env (ex_ns\<lparr>replicas := []\<rparr>) (ex_question rdatatype_TXT) =
     Inr (''QR AA'', ''example.com. 30 IN TXT '' @ [CHR 0x22] @ [] @ [CHR 0x22] @ NL) \<and>
   length (str_split CHR '';'' []) = 1 \<and>
   length (replicas (ex_ns\<lparr>replicas := []\<rparr>)) = 0 \<and>
   dispatch ex_env (ex_ns\<lparr>replicas := [\<lparr>addr = ''a;b'', port = 1, rtype = 1\<rparr>]\<rparr>)
       (ex_question rdatatype_TXT) =
     Inr (''QR AA'', ''example.com. 30 IN TXT '' @ [CHR 0x22] @ ''REPLICA a;b:1'' @ [CHR 0x22] @ NL) \<and>
   str_split CHR '';'' ''REPLICA a;b:1'' = [''REPLICA a'', ''b:1'']"
  by (simp add: should_answer_def ismydomainname_def name_eq_domain_def name_eq_refl
      dispatch_def txtresponse_def create_answer_section_def answer_resp_def rrclass_IN
      rrtype_lookups ex_defs rdatatype_defs str_defs)

section \<open>The classifier and the configured domain\<close>

lemma should_answer_iff:
  "should_answer ns q \<longleftrightarrow>
     rdtype q \<in> {rdatatype_A, rdatatype_AAAA, rdatatype_TXT, rdatatype_NS, rdatatype_SRV,
                  rdatatype_SOA} \<and>
     ((\<exists>n. mydomain ns = DnsName n \<and> name_eq (qname q) n) \<or>
      rdtype q = rdatatype_SRV \<and> name_eq (qname q) (mysrvdomain ns))"
  by (auto simp: should_answer_def ismydomainname_def name_eq_domain_def split: domain.splits)

lemma init_dotted_domain:
  "init domain_arg view today = Inr ns \<Longrightarrow> 0 < str_find domain_arg CHR ''.'' \<Longrightarrow>
     mydomain ns = DnsName (str_split CHR ''.'' (domain_arg @ ''.'')) \<and>
     mysrvdomain ns = str_split CHR ''.'' (SRVNAME @ domain_arg @ ''.'')"
  by (auto simp: init_def dns_Name_def split: sum.splits if_splits)

lemma init_dotless_domain:
  "init domain_arg view today = Inr ns \<Longrightarrow> \<not> 0 < str_find domain_arg CHR ''.'' \<Longrightarrow>
     mydomain ns = PlainStr domain_arg"
  by (auto simp: init_def dns_Name_def split: sum.splits if_splits)

lemma dotless_only_service:
  "init domain_arg view today = Inr ns \<Longrightarrow> \<not> 0 < str_find domain_arg CHR ''.'' \<Longrightarrow>
     should_answer ns q \<Longrightarrow> rdtype q = rdatatype_SRV \<and> name_eq (qname q) (mysrvdomain ns)"
  by (auto simp: should_answer_iff dest: init_dotless_domain)

text \<open>
  Claim C3. The classifier is to answer a question of a supported type whose name equals the
  configured domain. For the configured domain \<open>localhost\<close>, which has no dot, \<open>init\<close>
  succeeds and keeps the domain as a plain string; the ADDRESS question for the name
  \<open>localhost.\<close> is then not answered, while the one for \<open>example.com.\<close> on the nameserver
  configured for \<open>example.com\<close> is.
\<close>

theorem dotless_domain_unanswered:
  "init ''localhost'' ex_view ''20240601'' = Inr ex_local_ns \<and>
   \<not> should_answer ex_local_ns \<lparr>qname = [''localhost'', []], rdtype = rdatatype_A\<rparr> \<and>
   init ''example.com'' ex_view ''20240601'' = Inr ex_ns \<and>
   should_answer ex_ns \<lparr>qname = [''example'', ''com'', []], rdtype = rdatatype_A\<rparr>"
  by (simp add: init_def str_find_def dns_Name_def SRVNAME_def zfill_def str_defs
      ex_local_ns_def ex_ns_def should_answer_def ismydomainname_def name_eq_domain_def
      name_eq_refl rdatatype_defs)

end
